theory Spec2Isabelle
  imports Main "HOL-Library.Sublist" "HOL-Library.Monad_Syntax"
begin

section \<open>The Vultr Kubernetes resource: data\<close>

text \<open>
  The embedding follows \<^verbatim>\<open>vultr/resource_vultr_kubernetes.go\<close>. The remote API is an
  environment: each client call gets a scripted reply, and every call that is issued is
  appended to a log, so that the requests a function builds can be inspected.
\<close>

subsection \<open>Go values\<close>

text \<open>
  A Go \<^verbatim>\<open>error\<close> value: its message (\<^verbatim>\<open>err.Error()\<close>) and whether the transport
  layer classifies it as "not found". \<^verbatim>\<open>fmt.Errorf\<close> builds an \<open>OtherError\<close>.
\<close>

datatype error = NotFoundError string | OtherError string

fun Error :: "error \<Rightarrow> string" where
  "Error (NotFoundError m) = m"
| "Error (OtherError m) = m"

fun notFoundClassified :: "error \<Rightarrow> bool" where
  "notFoundClassified (NotFoundError m) = True"
| "notFoundClassified (OtherError m) = False"

text \<open>\<^verbatim>\<open>time.Duration\<close> counts nanoseconds.\<close>

type_synonym Duration = int

definition Second :: Duration where
  "Second = 1000000000"

definition Minute :: Duration where
  "Minute = 60 * Second"

text \<open>The package variable \<^verbatim>\<open>tfVKEDefault\<close>.\<close>

definition tfVKEDefault :: string where
  "tfVKEDefault = ''tf-vke-default''"

subsection \<open>Wire structs of the API client\<close>

text \<open>
  The structs of \<^verbatim>\<open>govultr\<close>, with the fields this file reads or sets. A field the source
  leaves out of a struct literal has Go's zero value (\<open>None\<close> for a nil pointer).
\<close>

record Node =
  n_ID :: string
  n_DateCreated :: string
  n_Label :: string
  n_Status :: string

record NodePool =
  np_ID :: string
  np_DateCreated :: string
  np_DateUpdated :: string
  np_Label :: string
  np_Plan :: string
  np_Status :: string
  np_Tag :: string
  np_NodeQuantity :: int
  np_Nodes :: "Node list"
  np_AutoScaler :: bool
  np_MinNodes :: int
  np_MaxNodes :: int

record Cluster =
  c_ID :: string
  c_Status :: string
  c_DateCreated :: string
  c_ClusterSubnet :: string
  c_ServiceSubnet :: string
  c_IP :: string
  c_Endpoint :: string
  c_NodePools :: "NodePool list"

record KubeConfig =
  kc_KubeConfig :: string

record NodePoolReq =
  npr_NodeQuantity :: int
  npr_Label :: string
  npr_Plan :: string
  npr_Tag :: string
  npr_AutoScaler :: "bool option"
  npr_MinNodes :: int
  npr_MaxNodes :: int

record NodePoolReqUpdate =
  npu_NodeQuantity :: int
  npu_AutoScaler :: "bool option"
  npu_MinNodes :: int
  npu_MaxNodes :: int

record ClusterReq =
  cr_Label :: string
  cr_Region :: string
  cr_Version :: string
  cr_NodePools :: "NodePoolReq list"

record ClusterReqUpdate =
  cru_Label :: string

subsection \<open>Configuration values\<close>

text \<open>
  A value of type \<^verbatim>\<open>interface{}\<close> as the configuration holds it. A Go map is a list of
  pairs; \<open>index\<close> reads a key, and a missing key reads as \<^verbatim>\<open>nil\<close>. A type assertion
  \<^verbatim>\<open>x.(T)\<close> panics on another type: the assertions return \<open>None\<close> there.
\<close>

datatype iface =
    INil
  | IString string
  | IInt int
  | IBool bool
  | IList "iface list"
  | IMap "(string \<times> iface) list"

fun asString :: "iface \<Rightarrow> string option" where
  "asString (IString x) = Some x"
| "asString v = None"

fun asInt :: "iface \<Rightarrow> int option" where
  "asInt (IInt x) = Some x"
| "asInt v = None"

fun asBool :: "iface \<Rightarrow> bool option" where
  "asBool (IBool x) = Some x"
| "asBool v = None"

fun asList :: "iface \<Rightarrow> iface list option" where
  "asList (IList x) = Some x"
| "asList v = None"

fun asMap :: "iface \<Rightarrow> (string \<times> iface) list option" where
  "asMap (IMap x) = Some x"
| "asMap v = None"

definition index :: "(string \<times> iface) list \<Rightarrow> string \<Rightarrow> iface" where
  "index m k = (case map_of m k of Some v \<Rightarrow> v | None \<Rightarrow> INil)"

subsection \<open>ResourceData\<close>

text \<open>
  The SDK's \<^verbatim>\<open>schema.ResourceData\<close>, as far as this file uses it: the resource ID, the
  attribute values (configuration and state), the values before the change for
  \<^verbatim>\<open>HasChange\<close> and \<^verbatim>\<open>GetChange\<close>, and the verdict of the SDK's schema check on a
  \<^verbatim>\<open>Set\<close> (\<open>setError d k v\<close> is the error \<^verbatim>\<open>d.Set(k, v)\<close> returns, if any; a refused value
  is not stored). An attribute that is not set reads as the zero value of its schema type:
  \<^verbatim>\<open>node_pools\<close> is a \<^verbatim>\<open>TypeList\<close>, every other attribute of the schema a \<^verbatim>\<open>TypeString\<close>.
\<close>

record ResourceData =
  rd_Id :: string
  attrs :: "string \<rightharpoonup> iface"
  prior :: "string \<rightharpoonup> iface"
  setError :: "string \<Rightarrow> iface \<Rightarrow> error option"

definition Id_of :: "ResourceData \<Rightarrow> string" where
  "Id_of d = rd_Id d"

definition SetId :: "ResourceData \<Rightarrow> string \<Rightarrow> ResourceData" where
  "SetId d v = d\<lparr>rd_Id := v\<rparr>"

definition zeroValue :: "string \<Rightarrow> iface" where
  "zeroValue k = (if k = ''node_pools'' then IList [] else IString [])"

definition Get :: "ResourceData \<Rightarrow> string \<Rightarrow> iface" where
  "Get d k = (case attrs d k of Some v \<Rightarrow> v | None \<Rightarrow> zeroValue k)"

definition GetOk :: "ResourceData \<Rightarrow> string \<Rightarrow> iface \<times> bool" where
  "GetOk d k = (Get d k, Get d k \<noteq> zeroValue k)"

definition GetChange :: "ResourceData \<Rightarrow> string \<Rightarrow> iface \<times> iface" where
  "GetChange d k =
     ((case prior d k of Some v \<Rightarrow> v | None \<Rightarrow> zeroValue k), Get d k)"

definition HasChange :: "ResourceData \<Rightarrow> string \<Rightarrow> bool" where
  "HasChange d k = (fst (GetChange d k) \<noteq> snd (GetChange d k))"

definition Set :: "ResourceData \<Rightarrow> string \<Rightarrow> iface \<Rightarrow> ResourceData \<times> error option" where
  "Set d k v =
     (case setError d k v of
        Some err \<Rightarrow> (d, Some err)
      | None \<Rightarrow> (d\<lparr>attrs := (attrs d)(k \<mapsto> v)\<rparr>, None))"

subsection \<open>The remote API and the calls issued\<close>

text \<open>
  What the environment does at one point of a poll is an \<open>event\<close>: the \<^verbatim>\<open>fetch\<close> callback
  returns, or the poller's next check finds the deadline passed, or finds the context
  cancelled. The wall clock itself is not part of the model.
\<close>

datatype 'a event = Fetched 'a | DeadlineExpired | ContextCancelled

text \<open>
  The replies of the API during one operation. \<open>GetCluster_refresh\<close> scripts the
  successive polls of the refresh function (each a reply of \<^verbatim>\<open>GetCluster\<close>, or an
  interruption of the wait); \<open>GetCluster\<close> is the reply to the call in
  \<^verbatim>\<open>resourceVultrKubernetesRead\<close>.
\<close>

record Remote =
  CreateCluster :: "error + Cluster"
  GetCluster_refresh :: "(error + Cluster) event list"
  GetCluster :: "error + Cluster"
  GetKubeConfig :: "error + KubeConfig"
  UpdateCluster :: "error option"
  UpdateNodePool :: "error option"
  DeleteNodePool :: "error option"
  CreateNodePool :: "error option"

datatype api_call =
    Call_CreateCluster ClusterReq
  | Call_GetCluster string
  | Call_GetKubeConfig string
  | Call_UpdateCluster string ClusterReqUpdate
  | Call_UpdateNodePool string string NodePoolReqUpdate
  | Call_DeleteNodePool string string
  | Call_CreateNodePool string NodePoolReq

text \<open>What an operation works on: the resource data and the log of the calls issued.\<close>

record World =
  rd :: ResourceData
  calls :: "api_call list"

definition call :: "World \<Rightarrow> api_call \<Rightarrow> World" where
  "call w c = w\<lparr>calls := calls w @ [c]\<rparr>"

section \<open>The convergence poller\<close>

subsection \<open>Observation, PollSpec, ConvergenceResult\<close>

text \<open>
  The poll loop that \<^verbatim>\<open>waitForVKEAvailable\<close> runs is
  \<^verbatim>\<open>StateChangeConf.WaitForStateContext\<close> of the plugin SDK, which is missing from the
  sources. This section models it from the specification: the data of section 3 and the
  contract \<^verbatim>\<open>await(ctx, spec, fetch)\<close> of sections 4.1 and 5.
\<close>

text \<open>
  Modelled from the spec: the result type of the SDK's refresh callback is missing;
  \<open>Observation\<close> is the result of one poll,
  \<^verbatim>\<open>(state: string, raw: opaque payload, error: optional)\<close>. In Go it is the triple
  \<^verbatim>\<open>(interface{}, string, error)\<close> that a \<^verbatim>\<open>StateRefreshFunc\<close> returns, with \<open>None\<close> for
  \<^verbatim>\<open>nil\<close>.
\<close>

record 'p Observation =
  state :: string
  raw :: "'p option"
  error :: "error option"

text \<open>
  Modelled from the spec: the SDK's \<^verbatim>\<open>StateChangeConf\<close> is missing; \<open>PollSpec\<close> has the
  fields of section 3.
\<close>

record PollSpec =
  target :: string
  transientStates :: "string set"
  pollInterval :: Duration
  minInterval :: Duration
  maxInterval :: Duration
  timeout :: Duration
  notFoundRetryBudget :: int

text \<open>
  Modelled from the spec: the SDK's error types are missing; \<open>ConvergenceResult\<close> is the
  terminal observation on success, or one of the failure classifications of sections 6
  and 7 (an unexpected state carries the offending label, a transport error the error).
\<close>

datatype 'p ConvergenceResult =
    Success "'p Observation"
  | NotFoundExhausted
  | UnexpectedState string
  | Timeout
  | Cancelled
  | TransportError error

fun isSuccess :: "'p ConvergenceResult \<Rightarrow> bool" where
  "isSuccess (Success obs) = True"
| "isSuccess _ = False"

text \<open>
  Modelled from the spec: the local variables of the SDK's loop are missing; \<open>Poller\<close>
  has the backoff counter and the budget that each call owns (section 5), and two
  records of what the poller did: the number of \<^verbatim>\<open>fetch\<close> invocations and the intervals
  it slept, in order.
\<close>

record Poller =
  backoff :: Duration
  budget :: int
  fetches :: nat
  slept :: "Duration list"

subsection \<open>await\<close>

text \<open>
  Modelled from the spec: the checks of the SDK's loop for the deadline and for
  cancellation are missing. Cancellation is checked before each sleep and before each
  fetch, and once signalled no further fetch is issued (section 5); an elapsed timeout
  is a timeout failure (section 4.1). \<open>interrupted\<close> is such a check: it looks at what the
  environment does next.
\<close>

fun interrupted :: "'p Observation event list \<Rightarrow> 'p ConvergenceResult option" where
  "interrupted (ContextCancelled # es) = Some Cancelled"
| "interrupted (DeadlineExpired # es) = Some Timeout"
| "interrupted es = None"

text \<open>
  Modelled from the spec: the SDK's wait between two polls is missing. The poller sleeps
  for the current backoff interval, which is doubled each tick up to \<^verbatim>\<open>maxInterval\<close>
  (section 4.1).
\<close>

definition sleep :: "PollSpec \<Rightarrow> Poller \<Rightarrow> Poller" where
  "sleep spec s =
     s\<lparr>slept := slept s @ [backoff s],
       backoff := min (2 * backoff s) (maxInterval spec)\<rparr>"

text \<open>
  Modelled from the spec: the body of the SDK's loop is missing. \<open>tick\<close> is the
  transition of section 4.1 that the observation returned by the one \<^verbatim>\<open>fetch\<close> of a tick
  selects:
  \<^item> a "not found"-classified error takes one from the budget; with the budget exhausted
    the poller fails permanently; any other error is propagated at once (section 7);
  \<^item> a state equal to \<^verbatim>\<open>spec.target\<close> is success with that observation;
  \<^item> a state in \<^verbatim>\<open>transientStates\<close> lets the poller continue;
  \<^item> any other state is a permanent "unexpected state" failure carrying the label.
  \<open>None\<close> in the first component says that the poller goes on to the next tick.
\<close>

definition tick :: "PollSpec \<Rightarrow> Poller \<Rightarrow> 'p Observation
    \<Rightarrow> 'p ConvergenceResult option \<times> Poller" where
  "tick spec s obs =
     (let s1 = s\<lparr>fetches := Suc (fetches s)\<rparr> in
      case error obs of
        Some e \<Rightarrow>
          if notFoundClassified e then
            if budget s1 \<le> 0 then (Some NotFoundExhausted, s1)
            else (None, s1\<lparr>budget := budget s1 - 1\<rparr>)
          else (Some (TransportError e), s1)
      | None \<Rightarrow>
          if state obs = target spec then (Some (Success obs), s1)
          else if state obs \<in> transientStates spec then (None, s1)
          else (Some (UnexpectedState (state obs)), s1))"

text \<open>
  Modelled from the spec: the SDK's loop is missing. \<open>poll\<close> runs the ticks one after
  the other on the script of what the environment does: the check before the fetch, the
  tick, and for a poller that continues the check before the sleep and the sleep; between
  two ticks the task suspends for the backoff duration (section 5). The script ends where
  the environment is no longer described: the result \<open>None\<close> says that the poller is
  still waiting there.
\<close>

fun poll :: "PollSpec \<Rightarrow> Poller \<Rightarrow> 'p Observation event list
    \<Rightarrow> 'p ConvergenceResult option \<times> Poller" where
  "poll spec s [] = (None, s)"
| "poll spec s (ContextCancelled # es) = (Some Cancelled, s)"
| "poll spec s (DeadlineExpired # es) = (Some Timeout, s)"
| "poll spec s (Fetched obs # es) =
     (case tick spec s obs of
        (Some r, s1) \<Rightarrow> (Some r, s1)
      | (None, s1) \<Rightarrow>
          (case interrupted es of
             Some r \<Rightarrow> (Some r, s1)
           | None \<Rightarrow> poll spec (sleep spec s1) es))"

text \<open>
  Modelled from the spec: the SDK's initialisation is missing. The backoff interval is
  initialized to \<^verbatim>\<open>minInterval\<close> (section 4.1), the budget to \<^verbatim>\<open>notFoundRetryBudget\<close>.
\<close>

definition start :: "PollSpec \<Rightarrow> Poller" where
  "start spec =
     \<lparr>backoff = minInterval spec, budget = notFoundRetryBudget spec,
      fetches = 0, slept = []\<rparr>"

text \<open>
  Modelled from the spec: \<^verbatim>\<open>WaitForStateContext\<close> itself is missing; \<open>await\<close> is
  \<^verbatim>\<open>await(ctx, spec, fetch)\<close> of section 4.1, with the context and the \<^verbatim>\<open>fetch\<close> callback
  given as the script of what they do.
\<close>

definition await :: "PollSpec \<Rightarrow> 'p Observation event list
    \<Rightarrow> 'p ConvergenceResult option \<times> Poller" where
  "await spec es = poll spec (start spec) es"

text \<open>The intervals a run has slept between its ticks, in order.\<close>

definition intervals :: "PollSpec \<Rightarrow> 'p Observation event list \<Rightarrow> Duration list" where
  "intervals spec es = slept (snd (await spec es))"

text \<open>The intervals of \<open>n\<close> successive sleeps that begin with backoff \<open>b\<close>.\<close>

fun backoffs :: "PollSpec \<Rightarrow> Duration \<Rightarrow> nat \<Rightarrow> Duration list" where
  "backoffs spec b 0 = []"
| "backoffs spec b (Suc n) = b # backoffs spec (min (2 * b) (maxInterval spec)) n"

section \<open>The resource operations\<close>

subsection \<open>Diagnostics\<close>

text \<open>
  \<^verbatim>\<open>diag.Errorf(format, args...)\<close> is kept as the format string and its arguments;
  \<^verbatim>\<open>nil\<close> diagnostics are the empty list. An operation returns its diagnostics, or panics
  in a failed type assertion, or is still waiting where the script of the environment ends.
\<close>

datatype fmt_arg =
    ArgString string
  | ArgError error
  | ArgFailure "Cluster ConvergenceResult"

datatype Diagnostic = Errorf string "fmt_arg list"

type_synonym Diagnostics = "Diagnostic list"

datatype Outcome = Returned Diagnostics | Panicked | Waiting

subsection \<open>strings.Contains\<close>

text \<open>
  \<^verbatim>\<open>strings.Contains(s, substr)\<close> of the Go library reports whether \<^verbatim>\<open>substr\<close> is within
  \<^verbatim>\<open>s\<close>: some suffix of \<^verbatim>\<open>s\<close> begins with \<^verbatim>\<open>substr\<close>.
\<close>

fun HasPrefix :: "string \<Rightarrow> string \<Rightarrow> bool" where
  "HasPrefix s [] = True"
| "HasPrefix [] (c # cs) = False"
| "HasPrefix (x # xs) (c # cs) = (x = c \<and> HasPrefix xs cs)"

fun Contains :: "string \<Rightarrow> string \<Rightarrow> bool" where
  "Contains [] substr = (substr = [])"
| "Contains (x # xs) substr = (HasPrefix (x # xs) substr \<or> Contains xs substr)"

subsection \<open>flattenNodePool and generateNodePool\<close>

fun flattenNode :: "Node \<Rightarrow> iface" where
  "flattenNode v =
     IMap [(''id'', IString (n_ID v)),
           (''status'', IString (n_Status v)),
           (''date_created'', IString (n_DateCreated v)),
           (''label'', IString (n_Label v))]"

definition flattenNodePool :: "NodePool \<Rightarrow> iface" where
  "flattenNodePool np =
     (let instances = map flattenNode (np_Nodes np);
          pool = IMap [(''label'', IString (np_Label np)),
                       (''plan'', IString (np_Plan np)),
                       (''node_quantity'', IInt (np_NodeQuantity np)),
                       (''id'', IString (np_ID np)),
                       (''date_created'', IString (np_DateCreated np)),
                       (''date_updated'', IString (np_DateUpdated np)),
                       (''status'', IString (np_Status np)),
                       (''tag'', IString (np_Tag np)),
                       (''nodes'', IList instances),
                       (''auto_scaler'', IBool (np_AutoScaler np)),
                       (''min_nodes'', IInt (np_MinNodes np)),
                       (''max_nodes'', IInt (np_MaxNodes np))]
      in IList [pool])"

text \<open>The body of the loop of \<^verbatim>\<open>generateNodePool\<close>: the request built from one pool.\<close>

definition generateNodePool_req :: "iface \<Rightarrow> NodePoolReq option" where
  "generateNodePool_req p =
     do {
       r \<leftarrow> asMap p;
       quantity \<leftarrow> asInt (index r ''node_quantity'');
       label \<leftarrow> asString (index r ''label'');
       plan \<leftarrow> asString (index r ''plan'');
       scaler \<leftarrow> asBool (index r ''auto_scaler'');
       minNodes \<leftarrow> asInt (index r ''min_nodes'');
       maxNodes \<leftarrow> asInt (index r ''max_nodes'');
       Some \<lparr>npr_NodeQuantity = quantity, npr_Label = label, npr_Plan = plan,
             npr_Tag = tfVKEDefault, npr_AutoScaler = Some scaler,
             npr_MinNodes = minNodes, npr_MaxNodes = maxNodes\<rparr>
     }"

fun generateNodePool_loop :: "NodePoolReq list \<Rightarrow> iface list \<Rightarrow> NodePoolReq list option" where
  "generateNodePool_loop npr [] = Some npr"
| "generateNodePool_loop npr (p # pool) =
     do {
       t \<leftarrow> generateNodePool_req p;
       generateNodePool_loop (npr @ [t]) pool
     }"

definition generateNodePool :: "iface \<Rightarrow> NodePoolReq list option" where
  "generateNodePool pools =
     do {
       pool \<leftarrow> asList pools;
       generateNodePool_loop [] pool
     }"

subsection \<open>newVKEStateRefresh and waitForVKEAvailable\<close>

text \<open>
  The closure \<^verbatim>\<open>newVKEStateRefresh\<close> returns, as a function of the reply its one call of
  \<^verbatim>\<open>GetCluster\<close> gets.
\<close>

definition newVKEStateRefresh :: "ResourceData \<Rightarrow> string \<Rightarrow> error + Cluster
    \<Rightarrow> Cluster Observation" where
  "newVKEStateRefresh d attr reply =
     (case reply of
        Inl err \<Rightarrow>
          \<lparr>state = [], raw = None,
           error = Some (OtherError (''error retrieving kubernetes cluster '' @ Id_of d @ '' ''))\<rparr>
      | Inr vke \<Rightarrow>
          if attr = ''status'' then \<lparr>state = c_Status vke, raw = Some vke, error = None\<rparr>
          else \<lparr>state = [], raw = None, error = None\<rparr>)"

text \<open>
  The \<^verbatim>\<open>StateChangeConf\<close> of \<^verbatim>\<open>waitForVKEAvailable\<close> in the fields of a \<open>PollSpec\<close>:
  \<^verbatim>\<open>Pending\<close> gives the transient states, \<^verbatim>\<open>Target\<close> (one element) the target,
  \<^verbatim>\<open>Timeout\<close> the timeout, \<^verbatim>\<open>MinTimeout\<close> the minimal interval and \<^verbatim>\<open>NotFoundChecks\<close>
  the not-found budget; \<^verbatim>\<open>PollInterval\<close> is not set and has Go's zero value. The
  source sets no upper bound for the interval: it is the parameter \<open>maxI\<close>. \<^verbatim>\<open>Delay\<close>
  (10 seconds before the first poll) has no field in a \<open>PollSpec\<close>.
\<close>

definition stateConf :: "Duration \<Rightarrow> string \<Rightarrow> string list \<Rightarrow> PollSpec" where
  "stateConf maxI target_state pending =
     \<lparr>target = target_state,
      transientStates = set pending,
      pollInterval = 0,
      minInterval = 5 * Second,
      maxInterval = maxI,
      timeout = 60 * Minute,
      notFoundRetryBudget = 60\<rparr>"

text \<open>
  \<^verbatim>\<open>waitForVKEAvailable\<close> returns what the poller returns; each invocation of the refresh
  function has issued one \<^verbatim>\<open>GetCluster\<close> for the resource ID.
\<close>

definition waitForVKEAvailable :: "Duration \<Rightarrow> Remote \<Rightarrow> World \<Rightarrow> string \<Rightarrow> string list
    \<Rightarrow> string \<Rightarrow> (Cluster ConvergenceResult option \<times> Poller) \<times> World" where
  "waitForVKEAvailable maxI client w target_state pending attribute =
     (let run = await (stateConf maxI target_state pending)
                  (map (map_event (newVKEStateRefresh (rd w) attribute))
                     (GetCluster_refresh client))
      in (run,
          w\<lparr>calls := calls w @ replicate (fetches (snd run)) (Call_GetCluster (Id_of (rd w)))\<rparr>))"

subsection \<open>resourceVultrKubernetesRead\<close>

text \<open>
  The loop of \<^verbatim>\<open>resourceVultrKubernetesRead\<close> over \<^verbatim>\<open>vke.NodePools\<close>: it looks for the
  node pool with the tag \<^verbatim>\<open>tf-vke-default\<close>, sets \<^verbatim>\<open>node_pools\<close> from it and breaks;
  \<open>Inl\<close> is the error of a refused \<^verbatim>\<open>Set\<close>.
\<close>

fun setDefaultNodePool :: "ResourceData \<Rightarrow> NodePool list \<Rightarrow> error + ResourceData" where
  "setDefaultNodePool d [] = Inr d"
| "setDefaultNodePool d (v # vs) =
     (if tfVKEDefault = np_Tag v then
        (case Set d ''node_pools'' (flattenNodePool v) of
           (d1, Some err) \<Rightarrow> Inl err
         | (d1, None) \<Rightarrow> Inr d1)
      else setDefaultNodePool d vs)"

text \<open>The six \<^verbatim>\<open>d.Set\<close> of the computed fields; their errors are dropped.\<close>

definition setComputed :: "ResourceData \<Rightarrow> Cluster \<Rightarrow> ResourceData" where
  "setComputed d vke =
     (let d1 = fst (Set d ''date_created'' (IString (c_DateCreated vke)));
          d2 = fst (Set d1 ''cluster_subnet'' (IString (c_ClusterSubnet vke)));
          d3 = fst (Set d2 ''service_subnet'' (IString (c_ServiceSubnet vke)));
          d4 = fst (Set d3 ''ip'' (IString (c_IP vke)));
          d5 = fst (Set d4 ''endpoint'' (IString (c_Endpoint vke)))
      in fst (Set d5 ''status'' (IString (c_Status vke))))"

definition resourceVultrKubernetesRead :: "Remote \<Rightarrow> World \<Rightarrow> Outcome \<times> World" where
  "resourceVultrKubernetesRead client w =
     (let w1 = call w (Call_GetCluster (Id_of (rd w))) in
      (case GetCluster client of
        Inl err \<Rightarrow>
          if Contains (Error err) ''Unauthorized'' then
            (Returned [Errorf ''API authorization error: %v'' [ArgError err]], w1)
          else if Contains (Error err) ''Invalid resource ID'' then
            (Returned [], w1\<lparr>rd := SetId (rd w1) []\<rparr>)
          else
            (Returned [Errorf ''error getting cluster (%s): %v''
               [ArgString (Id_of (rd w1)), ArgError err]], w1)
      | Inr vke \<Rightarrow>
          (case setDefaultNodePool (rd w1) (c_NodePools vke) of
             Inl err \<Rightarrow>
               (Returned [Errorf ''error setting `node_pool`: %v'' [ArgError err]], w1)
           | Inr d1 \<Rightarrow>
               let d2 = setComputed d1 vke;
                   w2 = call (w1\<lparr>rd := d2\<rparr>) (Call_GetKubeConfig (Id_of d2))
               in (case GetKubeConfig client of
                     Inl err \<Rightarrow>
                       (Returned [Errorf ''could not get kubeconfig : %v'' [ArgError err]], w2)
                   | Inr config \<Rightarrow>
                       (Returned [],
                        w2\<lparr>rd := fst (Set d2 ''kube_config''
                                      (IString (kc_KubeConfig config)))\<rparr>)))))"

subsection \<open>resourceVultrKubernetesCreate\<close>

text \<open>The request of \<^verbatim>\<open>resourceVultrKubernetesCreate\<close>, built from the configuration.\<close>

definition createRequest :: "ResourceData \<Rightarrow> ClusterReq option" where
  "createRequest d =
     do {
       nodePoolReq \<leftarrow> (case GetOk d ''node_pools'' of
                        (np, npOk) \<Rightarrow> if npOk then generateNodePool np else Some []);
       label \<leftarrow> asString (Get d ''label'');
       region \<leftarrow> asString (Get d ''region'');
       version \<leftarrow> asString (Get d ''version'');
       Some \<lparr>cr_Label = label, cr_Region = region, cr_Version = version,
             cr_NodePools = nodePoolReq\<rparr>
     }"

definition resourceVultrKubernetesCreate :: "Duration \<Rightarrow> Remote \<Rightarrow> World
    \<Rightarrow> Outcome \<times> World" where
  "resourceVultrKubernetesCreate maxI client w =
     (case createRequest (rd w) of
        None \<Rightarrow> (Panicked, w)
      | Some req \<Rightarrow>
          (let w1 = call w (Call_CreateCluster req) in
           (case CreateCluster client of
              Inl err \<Rightarrow>
                (Returned [Errorf ''error creating kubernetes cluster: %v'' [ArgError err]], w1)
            | Inr cluster \<Rightarrow>
                (let w2 = w1\<lparr>rd := SetId (rd w1) (c_ID cluster)\<rparr> in
                 (case waitForVKEAvailable maxI client w2 ''active'' [''pending''] ''status'' of
                    ((None, p), w3) \<Rightarrow> (Waiting, w3)
                  | ((Some r, p), w3) \<Rightarrow>
                      if isSuccess r then resourceVultrKubernetesRead client w3
                      else
                        (Returned
                           [Errorf
                              ''error while waiting for kubernetes cluster %v to be completed: %v''
                              [ArgString (c_ID cluster), ArgFailure r]], w3))))))"

subsection \<open>resourceVultrKubernetesUpdate\<close>

text \<open>
  The two blocks of \<^verbatim>\<open>resourceVultrKubernetesUpdate\<close> before its final
  \<^verbatim>\<open>resourceVultrKubernetesRead\<close>; \<open>Some\<close> is an early return (or a panic).
\<close>

definition updateLabel :: "Remote \<Rightarrow> World \<Rightarrow> Outcome option \<times> World" where
  "updateLabel client w =
     (if HasChange (rd w) ''label'' then
        (case asString (Get (rd w) ''label'') of
           None \<Rightarrow> (Some Panicked, w)
         | Some label \<Rightarrow>
             (let w1 = call w (Call_UpdateCluster (Id_of (rd w)) \<lparr>cru_Label = label\<rparr>) in
              (case UpdateCluster client of
                 Some err \<Rightarrow>
                   (Some (Returned [Errorf ''error updating vke cluster (%v): %v''
                      [ArgString (Id_of (rd w)), ArgError err]]), w1)
               | None \<Rightarrow> (None, w1))))
      else (None, w))"

definition nodePoolUpdateRequest :: "iface \<Rightarrow> (NodePoolReqUpdate \<times> string) option" where
  "nodePoolUpdateRequest new0 =
     do {
       n \<leftarrow> asMap new0;
       quantity \<leftarrow> asInt (index n ''node_quantity'');
       scaler \<leftarrow> asBool (index n ''auto_scaler'');
       minNodes \<leftarrow> asInt (index n ''min_nodes'');
       maxNodes \<leftarrow> asInt (index n ''max_nodes'');
       npid \<leftarrow> asString (index n ''id'');
       Some (\<lparr>npu_NodeQuantity = quantity, npu_AutoScaler = Some scaler,
              npu_MinNodes = minNodes, npu_MaxNodes = maxNodes\<rparr>, npid)
     }"

definition nodePoolDeleteRequest :: "iface \<Rightarrow> string option" where
  "nodePoolDeleteRequest old0 =
     do {
       n \<leftarrow> asMap old0;
       asString (index n ''id'')
     }"

definition nodePoolCreateRequest :: "iface \<Rightarrow> NodePoolReq option" where
  "nodePoolCreateRequest new0 =
     do {
       n \<leftarrow> asMap new0;
       quantity \<leftarrow> asInt (index n ''node_quantity'');
       plan \<leftarrow> asString (index n ''plan'');
       label \<leftarrow> asString (index n ''label'');
       Some \<lparr>npr_NodeQuantity = quantity, npr_Label = label, npr_Plan = plan,
             npr_Tag = tfVKEDefault, npr_AutoScaler = None,
             npr_MinNodes = 0, npr_MaxNodes = 0\<rparr>
     }"

definition updateNodePools :: "Remote \<Rightarrow> World \<Rightarrow> Outcome option \<times> World" where
  "updateNodePools client w =
     (if HasChange (rd w) ''node_pools'' then
        (case GetChange (rd w) ''node_pools'' of
           (oldNP, newNP) \<Rightarrow>
             (case (asList newNP, asList oldNP) of
                (Some new, Some old) \<Rightarrow>
                  if length new \<noteq> 0 \<and> length old \<noteq> 0 then
                    (case nodePoolUpdateRequest (new ! 0) of
                       None \<Rightarrow> (Some Panicked, w)
                     | Some (req, npid) \<Rightarrow>
                         let w1 = call w (Call_UpdateNodePool (Id_of (rd w)) npid req) in
                         (case UpdateNodePool client of
                           Some err \<Rightarrow>
                             (Some (Returned [Errorf ''error updating VKE node pool %v : %v''
                                [ArgString (Id_of (rd w)), ArgError err]]), w1)
                         | None \<Rightarrow> (None, w1)))
                  else if length new = 0 \<and> length old \<noteq> 0 then
                    (case nodePoolDeleteRequest (old ! 0) of
                       None \<Rightarrow> (Some Panicked, w)
                     | Some npid \<Rightarrow>
                         let w1 = call w (Call_DeleteNodePool (Id_of (rd w)) npid) in
                         (case DeleteNodePool client of
                           Some err \<Rightarrow>
                             (Some (Returned [Errorf ''error deleting VKE node pool %v : %v''
                                [ArgString (Id_of (rd w)), ArgError err]]), w1)
                         | None \<Rightarrow> (None, w1)))
                  else if length new \<noteq> 0 \<and> length old = 0 then
                    (case nodePoolCreateRequest (new ! 0) of
                       None \<Rightarrow> (Some Panicked, w)
                     | Some req \<Rightarrow>
                         let w1 = call w (Call_CreateNodePool (Id_of (rd w)) req) in
                         (case CreateNodePool client of
                           Some err \<Rightarrow>
                             (Some (Returned [Errorf ''error creating VKE node pool %v : %v''
                                [ArgString (Id_of (rd w)), ArgError err]]), w1)
                         | None \<Rightarrow> (None, w1)))
                  else (None, w)
              | _ \<Rightarrow> (Some Panicked, w)))
      else (None, w))"

definition resourceVultrKubernetesUpdate :: "Remote \<Rightarrow> World \<Rightarrow> Outcome \<times> World" where
  "resourceVultrKubernetesUpdate client w =
     (case updateLabel client w of
        (Some out, w1) \<Rightarrow> (out, w1)
      | (None, w1) \<Rightarrow>
          (case updateNodePools client w1 of
             (Some out, w2) \<Rightarrow> (out, w2)
           | (None, w2) \<Rightarrow> resourceVultrKubernetesRead client w2))"

subsection \<open>Sample values\<close>

text \<open>Concrete values on which the theorems below are instantiated.\<close>

definition samplePool :: "string \<Rightarrow> string \<Rightarrow> NodePool" where
  "samplePool ident tag =
     \<lparr>np_ID = ident, np_DateCreated = ''2021-07-01'', np_DateUpdated = ''2021-07-02'',
      np_Label = ''workers'', np_Plan = ''vc2-1c-2gb'', np_Status = ''active'', np_Tag = tag,
      np_NodeQuantity = 2, np_Nodes = [], np_AutoScaler = False,
      np_MinNodes = 1, np_MaxNodes = 3\<rparr>"

definition sampleCluster :: "string \<Rightarrow> NodePool list \<Rightarrow> Cluster" where
  "sampleCluster status pools =
     \<lparr>c_ID = ''vke-1'', c_Status = status, c_DateCreated = ''2021-07-01'',
      c_ClusterSubnet = ''10.244.0.0/16'', c_ServiceSubnet = ''10.96.0.0/12'',
      c_IP = ''192.0.2.1'', c_Endpoint = ''vke-1.example'', c_NodePools = pools\<rparr>"

definition sampleConfig :: "(string \<times> iface) list" where
  "sampleConfig =
     [(''label'', IString ''prod''), (''region'', IString ''ewr''),
      (''version'', IString ''v1.20.0+1'')]"

definition samplePoolConfig :: iface where
  "samplePoolConfig =
     IMap [(''node_quantity'', IInt 2), (''label'', IString ''workers''),
           (''plan'', IString ''vc2-1c-2gb''), (''auto_scaler'', IBool False),
           (''min_nodes'', IInt 1), (''max_nodes'', IInt 3)]"

definition sampleWorld :: "string \<Rightarrow> (string \<times> iface) list \<Rightarrow> World" where
  "sampleWorld ident config =
     \<lparr>rd = \<lparr>rd_Id = ident, attrs = map_of config, prior = map_of sampleConfig,
             setError = (\<lambda>k v. None)\<rparr>,
      calls = []\<rparr>"

definition sampleRemote :: "(error + Cluster) event list \<Rightarrow> error + Cluster \<Rightarrow> Remote" where
  "sampleRemote polls reply =
     \<lparr>CreateCluster = Inr (sampleCluster ''pending'' []),
      GetCluster_refresh = polls,
      GetCluster = reply,
      GetKubeConfig = Inr \<lparr>kc_KubeConfig = ''a3ViZWNvbmZpZw==''\<rparr>,
      UpdateCluster = None, UpdateNodePool = None, DeleteNodePool = None,
      CreateNodePool = None\<rparr>"

definition sampleObservation :: "string \<Rightarrow> Cluster Observation" where
  "sampleObservation status =
     \<lparr>state = status, raw = Some (sampleCluster status []), error = None\<rparr>"

definition sampleNotFound :: "Cluster Observation" where
  "sampleNotFound = \<lparr>state = [], raw = None, error = Some (NotFoundError ''404 Not Found'')\<rparr>"

section \<open>Properties of the poller\<close>

subsection \<open>Auxiliary facts\<close>

lemma fetches_sleep [simp]: "fetches (sleep spec s) = fetches s"
  by (simp add: sleep_def)

lemma budget_sleep [simp]: "budget (sleep spec s) = budget s"
  by (simp add: sleep_def)

lemma slept_sleep [simp]: "slept (sleep spec s) = slept s @ [backoff s]"
  by (simp add: sleep_def)

lemma backoff_sleep [simp]: "backoff (sleep spec s) = min (2 * backoff s) (maxInterval spec)"
  by (simp add: sleep_def)

lemma slept_tick [simp]: "slept (snd (tick spec s obs)) = slept s"
  by (simp add: tick_def Let_def split: option.splits)

lemma backoff_tick [simp]: "backoff (snd (tick spec s obs)) = backoff s"
  by (simp add: tick_def Let_def split: option.splits)

lemma fetches_tick [simp]: "fetches (snd (tick spec s obs)) = Suc (fetches s)"
  by (simp add: tick_def Let_def split: option.splits)

lemma interrupted_fetches: "interrupted (map Fetched os @ Fetched obs # rest) = None"
  by (cases os) simp_all

lemma interrupted_map_Fetched: "interrupted (map Fetched os) = None"
  by (cases os) simp_all

lemma tick_transient:
  assumes "error obs = None" and "state obs \<in> transientStates spec"
    and "state obs \<noteq> target spec"
  shows "tick spec s obs = (None, s\<lparr>fetches := Suc (fetches s)\<rparr>)"
  using assms by (simp add: tick_def)

lemma tick_target:
  assumes "error obs = None" and "state obs = target spec"
  shows "tick spec s obs = (Some (Success obs), s\<lparr>fetches := Suc (fetches s)\<rparr>)"
  using assms by (simp add: tick_def)

lemma tick_unexpected:
  assumes "error obs = None" and "state obs \<noteq> target spec"
    and "state obs \<notin> transientStates spec"
  shows "tick spec s obs = (Some (UnexpectedState (state obs)), s\<lparr>fetches := Suc (fetches s)\<rparr>)"
  using assms by (simp add: tick_def)

lemma tick_notFound:
  assumes "error obs = Some e" and "notFoundClassified e"
  shows "tick spec s obs =
    (if budget s \<le> 0 then (Some NotFoundExhausted, s\<lparr>fetches := Suc (fetches s)\<rparr>)
     else (None, s\<lparr>fetches := Suc (fetches s), budget := budget s - 1\<rparr>))"
  using assms by (simp add: tick_def)

lemma tick_Success:
  assumes "tick spec s obs = (Some (Success obs'), s')"
  shows "obs' = obs \<and> error obs = None \<and> state obs = target spec"
  using assms by (auto simp: tick_def Let_def split: option.splits if_splits)

text \<open>Transient observations followed by the target.\<close>

lemma poll_transient:
  assumes "\<forall>obs\<in>set os. error obs = None \<and> state obs \<in> transientStates spec \<and> state obs \<noteq> target spec"
    and "error final = None" and "state final = target spec"
  shows "fst (poll spec s (map Fetched os @ Fetched final # rest)) = Some (Success final)
    \<and> fetches (snd (poll spec s (map Fetched os @ Fetched final # rest))) = fetches s + length os + 1
    \<and> length (slept (snd (poll spec s (map Fetched os @ Fetched final # rest)))) = length (slept s) + length os"
  using assms
proof (induction os arbitrary: s)
  case Nil
  then show ?case by (simp add: tick_target)
next
  case (Cons a os)
  have step: "poll spec s (map Fetched (a # os) @ Fetched final # rest)
    = poll spec (sleep spec (s\<lparr>fetches := Suc (fetches s)\<rparr>)) (map Fetched os @ Fetched final # rest)"
    using Cons.prems(1) by (simp add: tick_transient interrupted_fetches)
  show ?case
    unfolding step using Cons.IH [of "sleep spec (s\<lparr>fetches := Suc (fetches s)\<rparr>)"] Cons.prems
    by simp
qed

text \<open>Not-found errors only: the budget is counted down, then the poller gives up.\<close>

lemma poll_notFound:
  assumes "\<forall>obs\<in>set os. \<exists>e. error obs = Some e \<and> notFoundClassified e"
  shows "(length os \<le> nat (budget s) \<longrightarrow>
            fst (poll spec s (map Fetched os)) = None
          \<and> budget (snd (poll spec s (map Fetched os))) = budget s - int (length os)
          \<and> fetches (snd (poll spec s (map Fetched os))) = fetches s + length os)
       \<and> (nat (budget s) < length os \<longrightarrow>
            fst (poll spec s (map Fetched os)) = Some NotFoundExhausted
          \<and> fetches (snd (poll spec s (map Fetched os))) = fetches s + nat (budget s) + 1)"
  using assms
proof (induction os arbitrary: s)
  case Nil
  then show ?case by simp
next
  case (Cons a os)
  from Cons.prems obtain e where e: "error a = Some e" "notFoundClassified e" by auto
  show ?case
  proof (cases "budget s \<le> 0")
    case True
    then show ?thesis by (simp add: tick_notFound [OF e])
  next
    case False
    let ?s' = "sleep spec (s\<lparr>fetches := Suc (fetches s), budget := budget s - 1\<rparr>)"
    have step: "poll spec s (map Fetched (a # os)) = poll spec ?s' (map Fetched os)"
      using False by (simp add: tick_notFound [OF e] interrupted_map_Fetched)
    have b: "budget ?s' = budget s - 1" "fetches ?s' = Suc (fetches s)" by simp_all
    have n: "nat (budget s) = Suc (nat (budget s - 1))" using False by simp
    show ?thesis
      unfolding step using Cons.IH [of ?s'] Cons.prems b
      by (simp add: n)
  qed
qed

text \<open>Success is always an observation of the target that \<^verbatim>\<open>fetch\<close> returned.\<close>

lemma poll_Success:
  "fst (poll spec s es) = Some (Success obs)
    \<Longrightarrow> Fetched obs \<in> set es \<and> error obs = None \<and> state obs = target spec"
proof (induction es arbitrary: s)
  case Nil
  then show ?case by simp
next
  case (Cons ev es)
  show ?case
  proof (cases ev)
    case (Fetched o1)
    obtain r s1 where t: "tick spec s o1 = (r, s1)" by (cases "tick spec s o1")
    show ?thesis
    proof (cases r)
      case None
      show ?thesis
      proof (cases "interrupted es")
        case None
        with \<open>r = None\<close> t Fetched Cons.prems
        have "fst (poll spec (sleep spec s1) es) = Some (Success obs)" by simp
        from Cons.IH [OF this] show ?thesis by simp
      next
        case (Some r')
        then have "r' = Cancelled \<or> r' = Timeout"
          by (cases es rule: interrupted.cases) auto
        with Some \<open>r = None\<close> t Fetched Cons.prems show ?thesis by auto
      qed
    next
      case (Some r')
      with t Fetched Cons.prems have "tick spec s o1 = (Some (Success obs), s1)" by simp
      from tick_Success [OF this] Fetched show ?thesis by simp
    qed
  next
    case DeadlineExpired
    with Cons.prems show ?thesis by simp
  next
    case ContextCancelled
    with Cons.prems show ?thesis by simp
  qed
qed

text \<open>The intervals slept are successive backoff intervals.\<close>

lemma poll_slept:
  "\<exists>n. slept (snd (poll spec s es)) = slept s @ backoffs spec (backoff s) n"
proof (induction es arbitrary: s)
  case Nil
  show ?case by (rule exI [of _ 0]) simp
next
  case (Cons ev es)
  show ?case
  proof (cases ev)
    case (Fetched obs)
    obtain r s1 where t: "tick spec s obs = (r, s1)" by (cases "tick spec s obs")
    have s1: "slept s1 = slept s" "backoff s1 = backoff s"
      using slept_tick [of spec s obs] backoff_tick [of spec s obs] t by simp_all
    show ?thesis
    proof (cases "r = None \<and> interrupted es = None")
      case True
      obtain n where "slept (snd (poll spec (sleep spec s1) es))
          = slept (sleep spec s1) @ backoffs spec (backoff (sleep spec s1)) n"
        using Cons.IH by blast
      then have "slept (snd (poll spec s (ev # es))) = slept s @ backoffs spec (backoff s) (Suc n)"
        using True t s1 Fetched by simp
      then show ?thesis by blast
    next
      case False
      then have "slept (snd (poll spec s (ev # es))) = slept s @ backoffs spec (backoff s) 0"
        using t s1 Fetched by (auto split: option.splits)
      then show ?thesis by blast
    qed
  next
    case DeadlineExpired
    show ?thesis unfolding DeadlineExpired by (rule exI [of _ 0]) simp
  next
    case ContextCancelled
    show ?thesis unfolding ContextCancelled by (rule exI [of _ 0]) simp
  qed
qed

lemma backoffs_le_max:
  "b \<le> maxInterval spec \<Longrightarrow> x \<in> set (backoffs spec b n) \<Longrightarrow> x \<le> maxInterval spec"
proof (induction n arbitrary: b)
  case 0
  then show ?case by simp
next
  case (Suc n)
  have "min (2 * b) (maxInterval spec) \<le> maxInterval spec" by simp
  from Suc.IH [OF this] Suc.prems show ?case by auto
qed

lemma backoffs_ge:
  "0 \<le> b \<Longrightarrow> b \<le> maxInterval spec \<Longrightarrow> x \<in> set (backoffs spec b n) \<Longrightarrow> b \<le> x"
proof (induction n arbitrary: b)
  case 0
  then show ?case by simp
next
  case (Suc n)
  have m: "0 \<le> min (2 * b) (maxInterval spec)" "min (2 * b) (maxInterval spec) \<le> maxInterval spec"
    "b \<le> min (2 * b) (maxInterval spec)"
    using Suc.prems by auto
  from Suc.IH [OF m(1,2)] m(3) Suc.prems(3) show ?case by auto
qed

lemma backoffs_sorted:
  "0 \<le> b \<Longrightarrow> b \<le> maxInterval spec \<Longrightarrow> sorted (backoffs spec b n)"
proof (induction n arbitrary: b)
  case 0
  then show ?case by simp
next
  case (Suc n)
  have m: "0 \<le> min (2 * b) (maxInterval spec)" "min (2 * b) (maxInterval spec) \<le> maxInterval spec"
    "b \<le> min (2 * b) (maxInterval spec)"
    using Suc.prems by auto
  have "sorted (backoffs spec (min (2 * b) (maxInterval spec)) n)"
    using m by (intro Suc.IH)
  moreover have "\<forall>x\<in>set (backoffs spec (min (2 * b) (maxInterval spec)) n). b \<le> x"
    using backoffs_ge [OF m(1,2)] m(3) by fastforce
  ultimately show ?case by simp
qed

lemma backoffs_length [simp]: "length (backoffs spec b n) = n"
  by (induction n arbitrary: b) auto

lemma backoffs_nth_Suc:
  "Suc i < n \<Longrightarrow> backoffs spec b n ! Suc i = min (2 * (backoffs spec b n ! i)) (maxInterval spec)"
proof (induction n arbitrary: b i)
  case 0
  then show ?case by simp
next
  case (Suc n)
  show ?case
  proof (cases i)
    case 0
    then show ?thesis using Suc.prems by (cases n) simp_all
  next
    case (Suc j)
    then show ?thesis using Suc.prems Suc.IH [of j] by simp
  qed
qed

lemma backoffs_first: "0 < n \<Longrightarrow> backoffs spec b n ! 0 = b"
  by (cases n) simp_all

lemma intervals_backoffs:
  "\<exists>n. intervals spec es = backoffs spec (minInterval spec) n"
  using poll_slept [of spec "start spec" es] by (simp add: intervals_def await_def start_def)

section \<open>Properties of the resource operations\<close>

subsection \<open>Auxiliary facts\<close>

lemma HasPrefix_prefix: "HasPrefix s p \<longleftrightarrow> prefix p s"
  by (induction s p rule: HasPrefix.induct) auto

lemma Contains_sublist: "Contains s substr \<longleftrightarrow> sublist substr s"
proof (induction s)
  case Nil
  show ?case by simp
next
  case (Cons x xs)
  then show ?case by (simp add: HasPrefix_prefix sublist_Cons_right)
qed

lemma generateNodePool_req_Tag:
  "generateNodePool_req p = Some t \<Longrightarrow> npr_Tag t = tfVKEDefault"
  by (auto simp: generateNodePool_req_def split: Option.bind_splits)

lemma generateNodePool_loop_Tag:
  "generateNodePool_loop npr pool = Some out \<Longrightarrow> \<forall>r\<in>set npr. npr_Tag r = tfVKEDefault
    \<Longrightarrow> \<forall>r\<in>set out. npr_Tag r = tfVKEDefault"
proof (induction pool arbitrary: npr)
  case Nil
  then show ?case by simp
next
  case (Cons p pool)
  from Cons.prems(1) obtain t where t: "generateNodePool_req p = Some t"
    and rest: "generateNodePool_loop (npr @ [t]) pool = Some out"
    by (auto split: Option.bind_splits)
  have "\<forall>r\<in>set (npr @ [t]). npr_Tag r = tfVKEDefault"
    using Cons.prems(2) generateNodePool_req_Tag [OF t] by simp
  from Cons.IH [OF rest this] show ?case .
qed

lemma generateNodePool_Tag:
  "generateNodePool pools = Some reqs \<Longrightarrow> \<forall>r\<in>set reqs. npr_Tag r = tfVKEDefault"
  by (auto simp: generateNodePool_def split: Option.bind_splits
      dest!: generateNodePool_loop_Tag)

lemma createRequest_Tag:
  "createRequest d = Some req \<Longrightarrow> \<forall>r\<in>set (cr_NodePools req). npr_Tag r = tfVKEDefault"
  by (auto simp: createRequest_def split: Option.bind_splits prod.splits if_splits
      dest!: generateNodePool_Tag)

lemma nodePoolCreateRequest_Tag:
  "nodePoolCreateRequest n = Some req \<Longrightarrow> npr_Tag req = tfVKEDefault"
  by (auto simp: nodePoolCreateRequest_def split: Option.bind_splits)

lemma attrs_Set_other: "k \<noteq> k' \<Longrightarrow> attrs (fst (Set d k v)) k' = attrs d k'"
  by (simp add: Set_def split: option.splits)

lemma attrs_Set_same:
  "setError d k v = None \<Longrightarrow> Set d k v = (d\<lparr>attrs := (attrs d)(k \<mapsto> v)\<rparr>, None)"
  by (simp add: Set_def)

lemma attrs_setComputed: "attrs (setComputed d vke) ''node_pools'' = attrs d ''node_pools''"
  by (simp add: setComputed_def Let_def attrs_Set_other)

lemma setDefaultNodePool_find:
  "setDefaultNodePool d vs =
     (case find (\<lambda>v. tfVKEDefault = np_Tag v) vs of
        None \<Rightarrow> Inr d
      | Some v \<Rightarrow> setDefaultNodePool d [v])"
  by (induction vs) auto

lemma setDefaultNodePool_first:
  "setDefaultNodePool d vs =
     setDefaultNodePool d
       (case find (\<lambda>v. tfVKEDefault = np_Tag v) vs of None \<Rightarrow> [] | Some v \<Rightarrow> [v])"
  by (subst setDefaultNodePool_find) (simp split: option.splits)

lemma setDefaultNodePool_attrs:
  assumes "setDefaultNodePool d vs = Inr d1"
  shows "attrs d1 ''node_pools'' =
     (case find (\<lambda>v. tfVKEDefault = np_Tag v) vs of
        None \<Rightarrow> attrs d ''node_pools''
      | Some v \<Rightarrow> Some (flattenNodePool v))"
  using assms
  by (subst (asm) setDefaultNodePool_find)
     (auto simp: Set_def split: option.splits if_splits dest: find_Some_iff [THEN iffD1])

lemma setDefaultNodePool_accepts:
  assumes "find (\<lambda>v. tfVKEDefault = np_Tag v) vs = Some v"
    and "setError d ''node_pools'' (flattenNodePool v) = None"
  shows "\<exists>d1. setDefaultNodePool d vs = Inr d1"
  using assms
  by (subst setDefaultNodePool_find) (auto simp: Set_def dest: find_Some_iff [THEN iffD1])

lemma read_node_pools:
  assumes "GetCluster client = Inr vke"
    and "setDefaultNodePool (rd w) (c_NodePools vke) = Inr d1"
  shows "attrs (rd (snd (resourceVultrKubernetesRead client w))) ''node_pools'' = attrs d1 ''node_pools''"
  using assms
  by (simp add: resourceVultrKubernetesRead_def Let_def call_def attrs_setComputed attrs_Set_other
      split: sum.splits)

lemma read_first_only:
  assumes "GetCluster client = Inr vke"
  shows "resourceVultrKubernetesRead client w =
     resourceVultrKubernetesRead
       (client\<lparr>GetCluster := Inr (vke\<lparr>c_NodePools :=
          (case find (\<lambda>v. tfVKEDefault = np_Tag v) (c_NodePools vke) of
             None \<Rightarrow> [] | Some v \<Rightarrow> [v])\<rparr>)\<rparr>) w"
proof -
  have "setComputed d (vke\<lparr>c_NodePools := ps\<rparr>) = setComputed d vke" for d ps
    by (simp add: setComputed_def)
  then show ?thesis
    using assms setDefaultNodePool_first [of "rd w" "c_NodePools vke"]
    by (simp add: resourceVultrKubernetesRead_def call_def Let_def cong: sum.case_cong)
qed

lemma updateLabel_calls:
  "Call_CreateNodePool i req \<in> set (calls (snd (updateLabel client w)))
    \<Longrightarrow> Call_CreateNodePool i req \<in> set (calls w)"
  by (auto simp: updateLabel_def Let_def call_def split: if_splits option.splits)

lemma updateNodePools_calls:
  "Call_CreateNodePool i req \<in> set (calls (snd (updateNodePools client w)))
    \<Longrightarrow> Call_CreateNodePool i req \<in> set (calls w) \<or> npr_Tag req = tfVKEDefault"
  by (auto simp: updateNodePools_def Let_def call_def
      split: if_splits option.splits prod.splits dest: nodePoolCreateRequest_Tag)

lemma read_calls:
  "Call_CreateNodePool i req \<in> set (calls (snd (resourceVultrKubernetesRead client w)))
    \<Longrightarrow> Call_CreateNodePool i req \<in> set (calls w)"
  by (auto simp: resourceVultrKubernetesRead_def Let_def call_def
      split: if_splits sum.splits)

lemma update_calls:
  assumes "Call_CreateNodePool i req \<in> set (calls (snd (resourceVultrKubernetesUpdate client w)))"
  shows "Call_CreateNodePool i req \<in> set (calls w) \<or> npr_Tag req = tfVKEDefault"
proof -
  obtain o1 w1 where u1: "updateLabel client w = (o1, w1)" by (cases "updateLabel client w")
  obtain o2 w2 where u2: "updateNodePools client w1 = (o2, w2)"
    by (cases "updateNodePools client w1")
  have c1: "Call_CreateNodePool i req \<in> set (calls w1) \<Longrightarrow> Call_CreateNodePool i req \<in> set (calls w)"
    using updateLabel_calls [of i req client w] u1 by simp
  have c2: "Call_CreateNodePool i req \<in> set (calls w2)
      \<Longrightarrow> Call_CreateNodePool i req \<in> set (calls w1) \<or> npr_Tag req = tfVKEDefault"
    using updateNodePools_calls [of i req client w1] u2 by simp
  from assms u1 u2 have "Call_CreateNodePool i req \<in> set (calls w1)
      \<or> Call_CreateNodePool i req \<in> set (calls w2)"
    by (auto simp: resourceVultrKubernetesUpdate_def split: option.splits dest: read_calls)
  with c1 c2 show ?thesis by blast
qed

section \<open>The claims\<close>

text \<open>
  C1. For every finite sequence of observations in which \<^verbatim>\<open>fetch\<close> returns only transient
  states and finally the target state, \<open>await\<close> returns success carrying that final
  observation, and the number of \<^verbatim>\<open>fetch\<close> invocations is the length of the sequence: one
  per tick, with one sleep between two successive ticks. Whatever the environment would
  do after the final observation (\<open>rest\<close>) is not looked at.
\<close>

theorem await_converges:
  assumes "target spec \<notin> transientStates spec"
    and "\<forall>obs\<in>set os. error obs = None \<and> state obs \<in> transientStates spec"
    and "error final = None" and "state final = target spec"
  shows "fst (await spec (map Fetched (os @ [final]) @ rest)) = Some (Success final)
    \<and> fetches (snd (await spec (map Fetched (os @ [final]) @ rest))) = length (os @ [final])
    \<and> Suc (length (intervals spec (map Fetched (os @ [final]) @ rest)))
        = fetches (snd (await spec (map Fetched (os @ [final]) @ rest)))"
proof -
  have "\<forall>obs\<in>set os. error obs = None \<and> state obs \<in> transientStates spec
      \<and> state obs \<noteq> target spec"
    using assms(1,2) by auto
  from poll_transient [OF this assms(3,4), of "start spec" rest]
  show ?thesis by (simp add: await_def intervals_def start_def)
qed

theorem await_converges_witness:
  "target (stateConf (10 * Second) ''active'' [''pending''])
      \<notin> transientStates (stateConf (10 * Second) ''active'' [''pending''])
   \<and> error (sampleObservation ''pending'') = None
   \<and> state (sampleObservation ''pending'')
       \<in> transientStates (stateConf (10 * Second) ''active'' [''pending''])
   \<and> error (sampleObservation ''active'') = None
   \<and> state (sampleObservation ''active'') = target (stateConf (10 * Second) ''active'' [''pending''])
   \<and> fst (await (stateConf (10 * Second) ''active'' [''pending''])
        (map Fetched ([sampleObservation ''pending'', sampleObservation ''pending'']
           @ [sampleObservation ''active'']) @ []))
      = Some (Success (sampleObservation ''active''))
   \<and> fetches (snd (await (stateConf (10 * Second) ''active'' [''pending''])
        (map Fetched ([sampleObservation ''pending'', sampleObservation ''pending'']
           @ [sampleObservation ''active'']) @ []))) = 3"
  using await_converges [of "stateConf (10 * Second) ''active'' [''pending'']"
      "[sampleObservation ''pending'', sampleObservation ''pending'']"
      "sampleObservation ''active''" "[]"]
  by (simp add: stateConf_def sampleObservation_def)

text \<open>
  C2. In a run in which \<^verbatim>\<open>fetch\<close> fails with a "not found"-classified error on each tick,
  each such tick takes one from the not-found budget as long as something is left of it,
  and the tick that finds the budget exhausted fails with the not-found classification:
  with a budget of \<open>n\<close> that is the \<open>n + 1\<close>-st \<^verbatim>\<open>fetch\<close>; with a budget of 2, the third.
\<close>

theorem notFound_budget_exhausted:
  assumes "\<forall>obs\<in>set os. \<exists>e. error obs = Some e \<and> notFoundClassified e"
  shows "(length os \<le> nat (notFoundRetryBudget spec) \<longrightarrow>
            fst (await spec (map Fetched os)) = None
          \<and> budget (snd (await spec (map Fetched os)))
              = notFoundRetryBudget spec - int (length os)
          \<and> fetches (snd (await spec (map Fetched os))) = length os)
       \<and> (nat (notFoundRetryBudget spec) < length os \<longrightarrow>
            fst (await spec (map Fetched os)) = Some NotFoundExhausted
          \<and> fetches (snd (await spec (map Fetched os)))
              = nat (notFoundRetryBudget spec) + 1)"
  using poll_notFound [OF assms, of "start spec" spec]
  by (simp add: await_def start_def)

theorem notFound_budget_exhausted_witness:
  "error sampleNotFound = Some (NotFoundError ''404 Not Found'')
   \<and> notFoundClassified (NotFoundError ''404 Not Found'')
   \<and> nat (notFoundRetryBudget
        ((stateConf (10 * Second) ''active'' [''pending''])\<lparr>notFoundRetryBudget := 2\<rparr>))
      < length [sampleNotFound, sampleNotFound, sampleNotFound]
   \<and> fst (await ((stateConf (10 * Second) ''active'' [''pending''])\<lparr>notFoundRetryBudget := 2\<rparr>)
        (map Fetched [sampleNotFound, sampleNotFound, sampleNotFound]))
      = Some NotFoundExhausted
   \<and> fetches (snd (await
        ((stateConf (10 * Second) ''active'' [''pending''])\<lparr>notFoundRetryBudget := 2\<rparr>)
        (map Fetched [sampleNotFound, sampleNotFound, sampleNotFound]))) = 3"
  using notFound_budget_exhausted
    [of "[sampleNotFound, sampleNotFound, sampleNotFound]"
      "(stateConf (10 * Second) ''active'' [''pending''])\<lparr>notFoundRetryBudget := 2\<rparr>"]
  by (simp add: stateConf_def sampleNotFound_def)

text \<open>
  C3. When \<^verbatim>\<open>fetch\<close> returns a state that is neither the target nor a transient state,
  \<open>await\<close> fails with the unexpected-state classification, which carries that label,
  after exactly one \<^verbatim>\<open>fetch\<close>, whatever later invocations would have returned.
\<close>

theorem unexpected_state_fails:
  assumes "error obs = None" and "state obs \<noteq> target spec"
    and "state obs \<notin> transientStates spec"
  shows "fst (await spec (Fetched obs # es)) = Some (UnexpectedState (state obs))
    \<and> fetches (snd (await spec (Fetched obs # es))) = 1"
  using assms by (simp add: await_def start_def tick_unexpected)

theorem unexpected_state_fails_witness:
  "error (sampleObservation ''deleted'') = None
   \<and> state (sampleObservation ''deleted'') \<noteq> target (stateConf (10 * Second) ''active'' [''pending''])
   \<and> state (sampleObservation ''deleted'')
       \<notin> transientStates (stateConf (10 * Second) ''active'' [''pending''])
   \<and> fst (await (stateConf (10 * Second) ''active'' [''pending''])
        (Fetched (sampleObservation ''deleted'') # [Fetched (sampleObservation ''deleted'')]))
      = Some (UnexpectedState ''deleted'')
   \<and> fetches (snd (await (stateConf (10 * Second) ''active'' [''pending''])
        (Fetched (sampleObservation ''deleted'') # [Fetched (sampleObservation ''deleted'')]))) = 1"
  using unexpected_state_fails [of "sampleObservation ''deleted''"
      "stateConf (10 * Second) ''active'' [''pending'']"
      "[Fetched (sampleObservation ''deleted'')]"]
  by (simp add: stateConf_def sampleObservation_def)

text \<open>
  C4. In every run of \<open>await\<close> on a \<open>PollSpec\<close> whose bounds are in order
  (\<open>0 \<le> minInterval \<le> maxInterval\<close>), the intervals slept between successive ticks never
  decrease, the first is \<open>minInterval\<close>, each next one is the double of the one before,
  cut at \<open>maxInterval\<close>, and none exceeds \<open>maxInterval\<close>.
\<close>

theorem backoff_intervals:
  assumes "0 \<le> minInterval spec" and "minInterval spec \<le> maxInterval spec"
  shows "sorted (intervals spec es)
    \<and> (intervals spec es \<noteq> [] \<longrightarrow> intervals spec es ! 0 = minInterval spec)
    \<and> (\<forall>i. Suc i < length (intervals spec es) \<longrightarrow>
          intervals spec es ! Suc i = min (2 * (intervals spec es ! i)) (maxInterval spec))
    \<and> (\<forall>x\<in>set (intervals spec es). x \<le> maxInterval spec)"
proof -
  obtain n where n: "intervals spec es = backoffs spec (minInterval spec) n"
    using intervals_backoffs by blast
  have "sorted (backoffs spec (minInterval spec) n)"
    using assms by (rule backoffs_sorted)
  moreover have "backoffs spec (minInterval spec) n \<noteq> []
      \<longrightarrow> backoffs spec (minInterval spec) n ! 0 = minInterval spec"
    by (cases n) simp_all
  moreover have "\<forall>i. Suc i < length (backoffs spec (minInterval spec) n) \<longrightarrow>
      backoffs spec (minInterval spec) n ! Suc i
        = min (2 * (backoffs spec (minInterval spec) n ! i)) (maxInterval spec)"
    by (simp add: backoffs_nth_Suc)
  moreover have "\<forall>x\<in>set (backoffs spec (minInterval spec) n). x \<le> maxInterval spec"
    using backoffs_le_max [OF assms(2)] by blast
  ultimately show ?thesis unfolding n by blast
qed

theorem backoff_intervals_witness:
  "0 \<le> minInterval (stateConf (10 * Second) ''active'' [''pending''])
   \<and> minInterval (stateConf (10 * Second) ''active'' [''pending''])
       \<le> maxInterval (stateConf (10 * Second) ''active'' [''pending''])
   \<and> intervals (stateConf (10 * Second) ''active'' [''pending''])
        (map Fetched (replicate 4 (sampleObservation ''pending'')))
      = [5 * Second, 10 * Second, 10 * Second, 10 * Second]
   \<and> sorted (intervals (stateConf (10 * Second) ''active'' [''pending''])
        (map Fetched (replicate 4 (sampleObservation ''pending''))))
   \<and> list_all (\<lambda>x. x \<le> maxInterval (stateConf (10 * Second) ''active'' [''pending'']))
        (intervals (stateConf (10 * Second) ''active'' [''pending''])
           (map Fetched (replicate 4 (sampleObservation ''pending''))))"
proof -
  have "intervals (stateConf (10 * Second) ''active'' [''pending''])
        (map Fetched (replicate 4 (sampleObservation ''pending'')))
      = [5 * Second, 10 * Second, 10 * Second, 10 * Second]"
    by (simp add: intervals_def await_def start_def stateConf_def sampleObservation_def
        tick_def sleep_def Second_def eval_nat_numeral)
  moreover have "0 \<le> minInterval (stateConf (10 * Second) ''active'' [''pending''])"
    "minInterval (stateConf (10 * Second) ''active'' [''pending''])
       \<le> maxInterval (stateConf (10 * Second) ''active'' [''pending''])"
    by (simp_all add: stateConf_def Second_def)
  ultimately show ?thesis
    using backoff_intervals [of "stateConf (10 * Second) ''active'' [''pending'']"
      "map Fetched (replicate 4 (sampleObservation ''pending''))"]
    by (simp add: list_all_iff)
qed

text \<open>
  The same run seen from \<^verbatim>\<open>waitForVKEAvailable\<close> with the attribute \<^verbatim>\<open>status\<close>: when
  \<^verbatim>\<open>GetCluster\<close> answers with clusters in pending states and then with one in the target
  state, the wait succeeds with that cluster after one \<^verbatim>\<open>GetCluster\<close> per reply.
\<close>

lemma waitForVKEAvailable_converges:
  assumes "target_state \<notin> set pending"
    and "\<forall>c\<in>set cs. c_Status c \<in> set pending"
    and "c_Status final = target_state"
    and "GetCluster_refresh client = map (\<lambda>c. Fetched (Inr c)) (cs @ [final])"
  shows "fst (fst (waitForVKEAvailable maxI client w target_state pending ''status''))
      = Some (Success \<lparr>state = target_state, raw = Some final, error = None\<rparr>)
    \<and> calls (snd (waitForVKEAvailable maxI client w target_state pending ''status''))
      = calls w @ replicate (Suc (length cs)) (Call_GetCluster (rd_Id (rd w)))"
proof -
  let ?spec = "stateConf maxI target_state pending"
  let ?f = "newVKEStateRefresh (rd w) ''status''"
  let ?os = "map (\<lambda>c. ?f (Inr c)) cs"
  let ?final = "\<lparr>state = target_state, raw = Some final, error = None\<rparr>"
  have ev: "map (map_event ?f) (GetCluster_refresh client)
      = map Fetched ?os @ Fetched ?final # []"
    using assms(3,4) by (simp add: newVKEStateRefresh_def comp_def)
  have "\<forall>obs\<in>set ?os. error obs = None \<and> state obs \<in> transientStates ?spec
      \<and> state obs \<noteq> target ?spec"
    using assms(1,2) by (auto simp: newVKEStateRefresh_def stateConf_def)
  moreover have "error ?final = None" "state ?final = target ?spec"
    by (simp_all add: stateConf_def)
  ultimately have "fst (poll ?spec (start ?spec) (map Fetched ?os @ Fetched ?final # []))
        = Some (Success ?final)
      \<and> fetches (snd (poll ?spec (start ?spec) (map Fetched ?os @ Fetched ?final # [])))
        = fetches (start ?spec) + length ?os + 1"
    using poll_transient [of ?os ?spec ?final "start ?spec" "[]"] by blast
  then show ?thesis
    by (simp add: waitForVKEAvailable_def Let_def await_def ev start_def Id_of_def)
qed

text \<open>
  C7. When \<^verbatim>\<open>GetCluster\<close> fails inside \<^verbatim>\<open>resourceVultrKubernetesRead\<close>, the error is
  classified by the substrings of its message: a message that contains
  \<^verbatim>\<open>Unauthorized\<close> gives the API authorization error; otherwise a message that contains
  \<^verbatim>\<open>Invalid resource ID\<close> clears the resource ID and returns no diagnostics; otherwise
  the generic error is returned. Nothing else of the resource data changes.
\<close>

theorem read_classifies_error:
  assumes "GetCluster client = Inl err"
  shows "resourceVultrKubernetesRead client w =
    (if sublist ''Unauthorized'' (Error err) then
       (Returned [Errorf ''API authorization error: %v'' [ArgError err]],
        w\<lparr>calls := calls w @ [Call_GetCluster (rd_Id (rd w))]\<rparr>)
     else if sublist ''Invalid resource ID'' (Error err) then
       (Returned [],
        w\<lparr>calls := calls w @ [Call_GetCluster (rd_Id (rd w))],
          rd := (rd w)\<lparr>rd_Id := []\<rparr>\<rparr>)
     else
       (Returned [Errorf ''error getting cluster (%s): %v''
          [ArgString (rd_Id (rd w)), ArgError err]],
        w\<lparr>calls := calls w @ [Call_GetCluster (rd_Id (rd w))]\<rparr>))"
  using assms
  by (simp add: resourceVultrKubernetesRead_def Contains_sublist call_def Id_of_def SetId_def)

theorem read_classifies_error_witness:
  "GetCluster (sampleRemote [] (Inl (OtherError ''404: Invalid resource ID.'')))
      = Inl (OtherError ''404: Invalid resource ID.'')
   \<and> resourceVultrKubernetesRead
        (sampleRemote [] (Inl (OtherError ''404: Invalid resource ID.'')))
        (sampleWorld ''vke-1'' sampleConfig)
      = (Returned [],
         (sampleWorld ''vke-1'' sampleConfig)
           \<lparr>calls := [Call_GetCluster ''vke-1''],
            rd := (rd (sampleWorld ''vke-1'' sampleConfig))\<lparr>rd_Id := []\<rparr>\<rparr>)"
proof -
  have c1: "\<not> Contains ''404: Invalid resource ID.'' ''Unauthorized''"
    by simp
  have c2: "Contains ''404: Invalid resource ID.'' ''Invalid resource ID''"
    by simp
  have g: "GetCluster (sampleRemote [] (Inl (OtherError ''404: Invalid resource ID.'')))
      = Inl (OtherError ''404: Invalid resource ID.'')"
    by (simp add: sampleRemote_def)
  show ?thesis
    using read_classifies_error [OF g, of "sampleWorld ''vke-1'' sampleConfig"] c1 c2 g
    by (simp add: Contains_sublist sampleWorld_def)
qed

lemma read_calls_kind:
  "c \<in> set (calls (snd (resourceVultrKubernetesRead client w)))
    \<Longrightarrow> c \<in> set (calls w) \<or> (\<exists>i. c = Call_GetCluster i) \<or> (\<exists>i. c = Call_GetKubeConfig i)"
  by (auto simp: resourceVultrKubernetesRead_def Let_def call_def
      split: if_splits sum.splits)

lemma create_calls:
  assumes "Call_CreateCluster req \<in> set (calls (snd (resourceVultrKubernetesCreate maxI client w)))"
  shows "Call_CreateCluster req \<in> set (calls w) \<or> createRequest (rd w) = Some req"
proof (cases "createRequest (rd w)")
  case None
  with assms show ?thesis by (simp add: resourceVultrKubernetesCreate_def)
next
  case (Some req')
  let ?w1 = "call w (Call_CreateCluster req')"
  show ?thesis
  proof (cases "CreateCluster client")
    case (Inl err)
    with assms Some show ?thesis
      by (auto simp: resourceVultrKubernetesCreate_def Let_def call_def)
  next
    case (Inr cluster)
    let ?w2 = "?w1\<lparr>rd := SetId (rd ?w1) (c_ID cluster)\<rparr>"
    obtain run w3 where wt: "waitForVKEAvailable maxI client ?w2 ''active'' [''pending''] ''status''
        = (run, w3)"
      by (cases "waitForVKEAvailable maxI client ?w2 ''active'' [''pending''] ''status''")
    have w3: "Call_CreateCluster req \<in> set (calls w3)
        \<Longrightarrow> Call_CreateCluster req \<in> set (calls w) \<or> req = req'"
      using wt by (auto simp: waitForVKEAvailable_def Let_def call_def)
    have "Call_CreateCluster req \<in> set (calls w3)"
    proof (cases "fst run")
      case None
      with assms Some Inr wt show ?thesis
        by (cases run) (simp add: resourceVultrKubernetesCreate_def Let_def)
    next
      case (Some r)
      show ?thesis
      proof (cases "isSuccess r")
        case True
        with assms \<open>createRequest (rd w) = Some req'\<close> Inr wt Some
        have "Call_CreateCluster req \<in> set (calls (snd (resourceVultrKubernetesRead client w3)))"
          by (cases run) (simp add: resourceVultrKubernetesCreate_def Let_def)
        from read_calls_kind [OF this] show ?thesis by auto
      next
        case False
        with assms \<open>createRequest (rd w) = Some req'\<close> Inr wt Some show ?thesis
          by (cases run) (simp add: resourceVultrKubernetesCreate_def Let_def)
      qed
    qed
    with w3 Some show ?thesis by auto
  qed
qed

text \<open>
  C8. When \<^verbatim>\<open>CreateCluster\<close> succeeds, \<^verbatim>\<open>resourceVultrKubernetesCreate\<close> sets the resource
  ID to the ID of the returned cluster before it waits: the wait runs on the resource data
  with that ID, and each of its polls asks for that ID. When the wait then fails, with
  whatever classification, the operation returns the error diagnostic and the resource
  data is what it was before, with the ID of the created cluster: nothing is rolled back.
\<close>

theorem create_keeps_id_when_wait_fails:
  assumes "createRequest (rd w) = Some req"
    and "CreateCluster client = Inr cluster"
    and "waitForVKEAvailable maxI client
           \<lparr>rd = (rd w)\<lparr>rd_Id := c_ID cluster\<rparr>, calls = calls w @ [Call_CreateCluster req]\<rparr>
           ''active'' [''pending''] ''status'' = ((Some r, p), w3)"
    and "\<not> isSuccess r"
  shows "resourceVultrKubernetesCreate maxI client w =
      (Returned [Errorf ''error while waiting for kubernetes cluster %v to be completed: %v''
         [ArgString (c_ID cluster), ArgFailure r]], w3)
    \<and> rd w3 = (rd w)\<lparr>rd_Id := c_ID cluster\<rparr>
    \<and> calls w3 = calls w @ Call_CreateCluster req
        # replicate (fetches p) (Call_GetCluster (c_ID cluster))"
proof -
  have w2: "(call w (Call_CreateCluster req))
      \<lparr>rd := SetId (rd (call w (Call_CreateCluster req))) (c_ID cluster)\<rparr>
    = \<lparr>rd = (rd w)\<lparr>rd_Id := c_ID cluster\<rparr>, calls = calls w @ [Call_CreateCluster req]\<rparr>"
    by (simp add: call_def SetId_def)
  have "resourceVultrKubernetesCreate maxI client w =
      (Returned [Errorf ''error while waiting for kubernetes cluster %v to be completed: %v''
         [ArgString (c_ID cluster), ArgFailure r]], w3)"
    using assms by (simp add: resourceVultrKubernetesCreate_def Let_def w2)
  moreover have "rd w3 = (rd w)\<lparr>rd_Id := c_ID cluster\<rparr>"
    using assms(3) by (auto simp: waitForVKEAvailable_def Let_def)
  moreover have "calls w3 = calls w @ Call_CreateCluster req
      # replicate (fetches p) (Call_GetCluster (c_ID cluster))"
    using assms(3) by (auto simp: waitForVKEAvailable_def Let_def Id_of_def)
  ultimately show ?thesis by blast
qed

lemma sample_request:
  "createRequest (rd (sampleWorld [] sampleConfig))
    = Some \<lparr>cr_Label = ''prod'', cr_Region = ''ewr'', cr_Version = ''v1.20.0+1'',
            cr_NodePools = []\<rparr>"
  by (simp add: createRequest_def sampleWorld_def sampleConfig_def GetOk_def Get_def
      zeroValue_def)

lemma sample_wait:
  "waitForVKEAvailable (10 * Second)
     (sampleRemote [Fetched (Inr (sampleCluster ''failed'' []))] (Inl (OtherError ''gone'')))
     \<lparr>rd = (rd (sampleWorld [] sampleConfig))\<lparr>rd_Id := c_ID (sampleCluster ''pending'' [])\<rparr>,
      calls = calls (sampleWorld [] sampleConfig)
        @ [Call_CreateCluster \<lparr>cr_Label = ''prod'', cr_Region = ''ewr'',
             cr_Version = ''v1.20.0+1'', cr_NodePools = []\<rparr>]\<rparr>
     ''active'' [''pending''] ''status''
   = ((Some (UnexpectedState ''failed''),
       \<lparr>backoff = 5 * Second, budget = 60, fetches = 1, slept = []\<rparr>),
      \<lparr>rd = (rd (sampleWorld [] sampleConfig))\<lparr>rd_Id := ''vke-1''\<rparr>,
       calls = [Call_CreateCluster \<lparr>cr_Label = ''prod'', cr_Region = ''ewr'',
                  cr_Version = ''v1.20.0+1'', cr_NodePools = []\<rparr>,
                Call_GetCluster ''vke-1'']\<rparr>)"
  by (simp add: waitForVKEAvailable_def Let_def await_def start_def stateConf_def
      sampleRemote_def sampleCluster_def sampleWorld_def newVKEStateRefresh_def tick_def
      Id_of_def)

theorem create_keeps_id_when_wait_fails_witness:
  "createRequest (rd (sampleWorld [] sampleConfig))
     = Some \<lparr>cr_Label = ''prod'', cr_Region = ''ewr'', cr_Version = ''v1.20.0+1'',
             cr_NodePools = []\<rparr>
   \<and> CreateCluster
        (sampleRemote [Fetched (Inr (sampleCluster ''failed'' []))] (Inl (OtherError ''gone'')))
      = Inr (sampleCluster ''pending'' [])
   \<and> \<not> isSuccess (UnexpectedState ''failed'' :: Cluster ConvergenceResult)
   \<and> fst (resourceVultrKubernetesCreate (10 * Second)
        (sampleRemote [Fetched (Inr (sampleCluster ''failed'' []))] (Inl (OtherError ''gone'')))
        (sampleWorld [] sampleConfig))
      = Returned [Errorf ''error while waiting for kubernetes cluster %v to be completed: %v''
          [ArgString ''vke-1'', ArgFailure (UnexpectedState ''failed'')]]
   \<and> rd_Id (rd (snd (resourceVultrKubernetesCreate (10 * Second)
        (sampleRemote [Fetched (Inr (sampleCluster ''failed'' []))] (Inl (OtherError ''gone'')))
        (sampleWorld [] sampleConfig)))) = ''vke-1''
   \<and> calls (snd (resourceVultrKubernetesCreate (10 * Second)
        (sampleRemote [Fetched (Inr (sampleCluster ''failed'' []))] (Inl (OtherError ''gone'')))
        (sampleWorld [] sampleConfig)))
      = [Call_CreateCluster \<lparr>cr_Label = ''prod'', cr_Region = ''ewr'',
           cr_Version = ''v1.20.0+1'', cr_NodePools = []\<rparr>,
         Call_GetCluster ''vke-1'']"
proof -
  have c: "CreateCluster
        (sampleRemote [Fetched (Inr (sampleCluster ''failed'' []))] (Inl (OtherError ''gone'')))
      = Inr (sampleCluster ''pending'' [])"
    by (simp add: sampleRemote_def)
  have f: "\<not> isSuccess (UnexpectedState ''failed'' :: Cluster ConvergenceResult)"
    by simp
  have i: "c_ID (sampleCluster ''pending'' []) = ''vke-1''"
    by (simp add: sampleCluster_def)
  show ?thesis
    using create_keeps_id_when_wait_fails [OF sample_request c sample_wait f] sample_request c
    by (simp add: i)
qed

lemma setDefaultNodePool_accepted:
  assumes "\<forall>v. find (\<lambda>v. tfVKEDefault = np_Tag v) vs = Some v
      \<longrightarrow> setError d ''node_pools'' (flattenNodePool v) = None"
  shows "\<exists>d1. setDefaultNodePool d vs = Inr d1"
proof (cases "find (\<lambda>v. tfVKEDefault = np_Tag v) vs")
  case None
  then show ?thesis by (subst setDefaultNodePool_find) simp
next
  case (Some v)
  then have "tfVKEDefault = np_Tag v" by (auto dest: find_Some_iff [THEN iffD1])
  moreover have "setError d ''node_pools'' (flattenNodePool v) = None"
    using assms Some by simp
  ultimately show ?thesis
    using Some by (subst setDefaultNodePool_find) (simp add: Set_def)
qed

lemma refresh_state:
  assumes "attribute \<noteq> ''status''"
  shows "error (newVKEStateRefresh d attribute reply) = None
    \<longrightarrow> state (newVKEStateRefresh d attribute reply) = []"
  using assms by (cases reply) (simp_all add: newVKEStateRefresh_def)

text \<open>
  C9. Every node pool request built from the configuration carries the tag
  \<^verbatim>\<open>tf-vke-default\<close>, whatever the configuration holds: the requests of
  \<^verbatim>\<open>generateNodePool\<close>, hence those in the \<^verbatim>\<open>CreateCluster\<close> call of
  \<^verbatim>\<open>resourceVultrKubernetesCreate\<close>, and the request of every \<^verbatim>\<open>CreateNodePool\<close> call
  that \<^verbatim>\<open>resourceVultrKubernetesUpdate\<close> issues. And \<^verbatim>\<open>resourceVultrKubernetesRead\<close>
  looks at the first node pool with that tag only: its result is the same when all other
  node pools are removed from the reply, and (when the SDK accepts the value) the
  attribute \<^verbatim>\<open>node_pools\<close> is afterwards that node pool, flattened, or unchanged when no node
  pool has the tag.
\<close>

theorem node_pool_tag:
  "(\<forall>reqs. generateNodePool pools = Some reqs
      \<longrightarrow> (\<forall>r\<in>set reqs. npr_Tag r = tfVKEDefault))
   \<and> (\<forall>req. Call_CreateCluster req
          \<in> set (calls (snd (resourceVultrKubernetesCreate maxI client w)))
      \<longrightarrow> Call_CreateCluster req \<in> set (calls w)
          \<or> (\<forall>r\<in>set (cr_NodePools req). npr_Tag r = tfVKEDefault))
   \<and> (\<forall>i req. Call_CreateNodePool i req
          \<in> set (calls (snd (resourceVultrKubernetesUpdate client w)))
      \<longrightarrow> Call_CreateNodePool i req \<in> set (calls w) \<or> npr_Tag req = tfVKEDefault)
   \<and> (\<forall>vke. GetCluster client = Inr vke \<longrightarrow>
        resourceVultrKubernetesRead client w =
          resourceVultrKubernetesRead
            (client\<lparr>GetCluster := Inr (vke\<lparr>c_NodePools :=
               (case find (\<lambda>v. tfVKEDefault = np_Tag v) (c_NodePools vke) of
                  None \<Rightarrow> [] | Some v \<Rightarrow> [v])\<rparr>)\<rparr>) w
      \<and> ((\<forall>v. find (\<lambda>v. tfVKEDefault = np_Tag v) (c_NodePools vke) = Some v
              \<longrightarrow> setError (rd w) ''node_pools'' (flattenNodePool v) = None)
          \<longrightarrow> attrs (rd (snd (resourceVultrKubernetesRead client w))) ''node_pools'' =
               (case find (\<lambda>v. tfVKEDefault = np_Tag v) (c_NodePools vke) of
                  None \<Rightarrow> attrs (rd w) ''node_pools''
                | Some v \<Rightarrow> Some (flattenNodePool v))))"
proof (intro conjI allI impI)
  fix reqs assume "generateNodePool pools = Some reqs"
  then show "\<forall>r\<in>set reqs. npr_Tag r = tfVKEDefault" by (rule generateNodePool_Tag)
next
  fix req
  assume "Call_CreateCluster req \<in> set (calls (snd (resourceVultrKubernetesCreate maxI client w)))"
  from create_calls [OF this]
  show "Call_CreateCluster req \<in> set (calls w)
      \<or> (\<forall>r\<in>set (cr_NodePools req). npr_Tag r = tfVKEDefault)"
    using createRequest_Tag by blast
next
  fix i req
  assume "Call_CreateNodePool i req \<in> set (calls (snd (resourceVultrKubernetesUpdate client w)))"
  then show "Call_CreateNodePool i req \<in> set (calls w) \<or> npr_Tag req = tfVKEDefault"
    by (rule update_calls)
next
  fix vke assume "GetCluster client = Inr vke"
  then show "resourceVultrKubernetesRead client w =
      resourceVultrKubernetesRead
        (client\<lparr>GetCluster := Inr (vke\<lparr>c_NodePools :=
           (case find (\<lambda>v. tfVKEDefault = np_Tag v) (c_NodePools vke) of
              None \<Rightarrow> [] | Some v \<Rightarrow> [v])\<rparr>)\<rparr>) w"
    by (rule read_first_only)
next
  fix vke
  assume g: "GetCluster client = Inr vke"
    and ok: "\<forall>v. find (\<lambda>v. tfVKEDefault = np_Tag v) (c_NodePools vke) = Some v
      \<longrightarrow> setError (rd w) ''node_pools'' (flattenNodePool v) = None"
  from setDefaultNodePool_accepted [OF ok]
  obtain d1 where d1: "setDefaultNodePool (rd w) (c_NodePools vke) = Inr d1" by blast
  show "attrs (rd (snd (resourceVultrKubernetesRead client w))) ''node_pools'' =
      (case find (\<lambda>v. tfVKEDefault = np_Tag v) (c_NodePools vke) of
         None \<Rightarrow> attrs (rd w) ''node_pools''
       | Some v \<Rightarrow> Some (flattenNodePool v))"
    using read_node_pools [OF g d1] setDefaultNodePool_attrs [OF d1] by simp
qed

text \<open>
  C10. With an attribute other than \<^verbatim>\<open>status\<close>, the refresh function built by
  \<^verbatim>\<open>newVKEStateRefresh\<close> answers a successful remote read with the observation of a nil
  payload, the empty label and no error, so that \<^verbatim>\<open>waitForVKEAvailable\<close> never returns
  success for a target other than the empty string. With any attribute, a failed remote
  read gives the same fresh error whatever the underlying error was: its message names the
  resource ID only.
\<close>

theorem refresh_other_attribute:
  "(attribute \<noteq> ''status'' \<longrightarrow>
      newVKEStateRefresh d attribute (Inr vke) = \<lparr>state = [], raw = None, error = None\<rparr>)
   \<and> newVKEStateRefresh d attribute (Inl err) =
       \<lparr>state = [], raw = None,
        error = Some (OtherError (''error retrieving kubernetes cluster '' @ rd_Id d @ '' ''))\<rparr>
   \<and> (attribute \<noteq> ''status'' \<and> target_state \<noteq> [] \<longrightarrow>
       (\<forall>obs. fst (fst (waitForVKEAvailable maxI client w target_state pending attribute))
          \<noteq> Some (Success obs)))"
proof (intro conjI allI impI)
  assume "attribute \<noteq> ''status''"
  then show "newVKEStateRefresh d attribute (Inr vke) = \<lparr>state = [], raw = None, error = None\<rparr>"
    by (simp add: newVKEStateRefresh_def)
next
  show "newVKEStateRefresh d attribute (Inl err) =
       \<lparr>state = [], raw = None,
        error = Some (OtherError (''error retrieving kubernetes cluster '' @ rd_Id d @ '' ''))\<rparr>"
    by (simp add: newVKEStateRefresh_def Id_of_def)
next
  fix obs
  assume a: "attribute \<noteq> ''status'' \<and> target_state \<noteq> []"
  show "fst (fst (waitForVKEAvailable maxI client w target_state pending attribute))
      \<noteq> Some (Success obs)"
  proof
    assume "fst (fst (waitForVKEAvailable maxI client w target_state pending attribute))
      = Some (Success obs)"
    then have "fst (poll (stateConf maxI target_state pending)
        (start (stateConf maxI target_state pending))
        (map (map_event (newVKEStateRefresh (rd w) attribute)) (GetCluster_refresh client)))
      = Some (Success obs)"
      by (simp add: waitForVKEAvailable_def Let_def await_def)
    from poll_Success [OF this]
    have m: "Fetched obs \<in> set (map (map_event (newVKEStateRefresh (rd w) attribute))
          (GetCluster_refresh client))"
      and e: "error obs = None" and s: "state obs = target_state"
      by (simp_all add: stateConf_def)
    from m obtain ev where "Fetched obs = map_event (newVKEStateRefresh (rd w) attribute) ev"
      by auto
    then obtain reply where "obs = newVKEStateRefresh (rd w) attribute reply"
      by (cases ev) simp_all
    with refresh_state [of attribute "rd w" reply] a e have "state obs = []" by simp
    with s a show False by simp
  qed
qed

theorem refresh_other_attribute_witness:
  "''phase'' \<noteq> ''status'' \<and> ''active'' \<noteq> []
   \<and> newVKEStateRefresh (rd (sampleWorld ''vke-1'' sampleConfig)) ''phase''
        (Inr (sampleCluster ''active'' []))
      = \<lparr>state = [], raw = None, error = None\<rparr>
   \<and> newVKEStateRefresh (rd (sampleWorld ''vke-1'' sampleConfig)) ''phase''
        (Inl (NotFoundError ''404 Not Found''))
      = \<lparr>state = [], raw = None,
         error = Some (OtherError ''error retrieving kubernetes cluster vke-1 '')\<rparr>
   \<and> fst (fst (waitForVKEAvailable (10 * Second)
        (sampleRemote [Fetched (Inr (sampleCluster ''active'' []))]
           (Inr (sampleCluster ''active'' [])))
        (sampleWorld ''vke-1'' sampleConfig) ''active'' [''pending''] ''phase''))
      \<noteq> Some (Success (sampleObservation ''active''))"
  using refresh_other_attribute [of "''phase''" "rd (sampleWorld ''vke-1'' sampleConfig)"
      "sampleCluster ''active'' []" "NotFoundError ''404 Not Found''" "''active''"
      "10 * Second" "sampleRemote [Fetched (Inr (sampleCluster ''active'' []))]
           (Inr (sampleCluster ''active'' []))"
      "sampleWorld ''vke-1'' sampleConfig" "[''pending'']"]
  by (simp add: sampleWorld_def)

lemma sample_generate:
  "generateNodePool (IList [samplePoolConfig])
    = Some [\<lparr>npr_NodeQuantity = 2, npr_Label = ''workers'', npr_Plan = ''vc2-1c-2gb'',
             npr_Tag = ''tf-vke-default'', npr_AutoScaler = Some False,
             npr_MinNodes = 1, npr_MaxNodes = 3\<rparr>]"
  by (simp add: generateNodePool_def generateNodePool_req_def samplePoolConfig_def index_def
      tfVKEDefault_def)

lemma sample_update:
  "Call_CreateNodePool ''vke-1''
      \<lparr>npr_NodeQuantity = 2, npr_Label = ''workers'', npr_Plan = ''vc2-1c-2gb'',
       npr_Tag = ''tf-vke-default'', npr_AutoScaler = None,
       npr_MinNodes = 0, npr_MaxNodes = 0\<rparr>
    \<in> set (calls (snd (resourceVultrKubernetesUpdate
        (sampleRemote []
           (Inr (sampleCluster ''active''
              [samplePool ''np-1'' ''custom'', samplePool ''np-2'' ''tf-vke-default'',
               samplePool ''np-3'' ''tf-vke-default''])))
        (sampleWorld ''vke-1'' (sampleConfig @ [(''node_pools'', IList [samplePoolConfig])])))))"
proof -
  let ?w = "sampleWorld ''vke-1'' (sampleConfig @ [(''node_pools'', IList [samplePoolConfig])])"
  let ?c = "sampleRemote []
           (Inr (sampleCluster ''active''
              [samplePool ''np-1'' ''custom'', samplePool ''np-2'' ''tf-vke-default'',
               samplePool ''np-3'' ''tf-vke-default'']))"
  let ?req = "\<lparr>npr_NodeQuantity = 2, npr_Label = ''workers'', npr_Plan = ''vc2-1c-2gb'',
       npr_Tag = ''tf-vke-default'', npr_AutoScaler = None,
       npr_MinNodes = 0, npr_MaxNodes = 0\<rparr>"
  have l: "updateLabel ?c ?w = (None, ?w)"
    by (simp add: updateLabel_def HasChange_def GetChange_def Get_def sampleWorld_def
        sampleConfig_def)
  have n: "updateNodePools ?c ?w = (None, call ?w (Call_CreateNodePool ''vke-1'' ?req))"
    by (simp add: updateNodePools_def HasChange_def GetChange_def Get_def sampleWorld_def
        sampleConfig_def zeroValue_def nodePoolCreateRequest_def samplePoolConfig_def
        index_def tfVKEDefault_def sampleRemote_def Id_of_def call_def)
  have "Call_CreateNodePool ''vke-1'' ?req
      \<in> set (calls (snd (resourceVultrKubernetesRead ?c
          (call ?w (Call_CreateNodePool ''vke-1'' ?req)))))"
    by (simp add: resourceVultrKubernetesRead_def Let_def call_def sampleRemote_def
        split: sum.splits)
  then show ?thesis
    by (simp add: resourceVultrKubernetesUpdate_def l n)
qed

lemma sample_find:
  "find (\<lambda>v. tfVKEDefault = np_Tag v)
     [samplePool ''np-1'' ''custom'', samplePool ''np-2'' ''tf-vke-default'',
      samplePool ''np-3'' ''tf-vke-default'']
   = Some (samplePool ''np-2'' ''tf-vke-default'')"
  by (simp add: samplePool_def tfVKEDefault_def)

theorem node_pool_tag_witness:
  "generateNodePool (IList [samplePoolConfig])
     = Some [\<lparr>npr_NodeQuantity = 2, npr_Label = ''workers'', npr_Plan = ''vc2-1c-2gb'',
              npr_Tag = ''tf-vke-default'', npr_AutoScaler = Some False,
              npr_MinNodes = 1, npr_MaxNodes = 3\<rparr>]
   \<and> Call_CreateNodePool ''vke-1''
        \<lparr>npr_NodeQuantity = 2, npr_Label = ''workers'', npr_Plan = ''vc2-1c-2gb'',
         npr_Tag = tfVKEDefault, npr_AutoScaler = None, npr_MinNodes = 0, npr_MaxNodes = 0\<rparr>
      \<in> set (calls (snd (resourceVultrKubernetesUpdate
          (sampleRemote []
             (Inr (sampleCluster ''active''
                [samplePool ''np-1'' ''custom'', samplePool ''np-2'' ''tf-vke-default'',
                 samplePool ''np-3'' ''tf-vke-default''])))
          (sampleWorld ''vke-1''
             (sampleConfig @ [(''node_pools'', IList [samplePoolConfig])])))))
   \<and> attrs (rd (snd (resourceVultrKubernetesRead
          (sampleRemote []
             (Inr (sampleCluster ''active''
                [samplePool ''np-1'' ''custom'', samplePool ''np-2'' ''tf-vke-default'',
                 samplePool ''np-3'' ''tf-vke-default''])))
          (sampleWorld ''vke-1''
             (sampleConfig @ [(''node_pools'', IList [samplePoolConfig])])))))
        ''node_pools''
      = Some (flattenNodePool (samplePool ''np-2'' ''tf-vke-default''))"
proof -
  let ?w = "sampleWorld ''vke-1'' (sampleConfig @ [(''node_pools'', IList [samplePoolConfig])])"
  let ?vke = "sampleCluster ''active''
     [samplePool ''np-1'' ''custom'', samplePool ''np-2'' ''tf-vke-default'',
      samplePool ''np-3'' ''tf-vke-default'']"
  let ?c = "sampleRemote [] (Inr ?vke)"
  note T = node_pool_tag [of "IList [samplePoolConfig]" "10 * Second" ?c ?w]
  have g: "GetCluster ?c = Inr ?vke" by (simp add: sampleRemote_def)
  have f: "find (\<lambda>v. tfVKEDefault = np_Tag v) (c_NodePools ?vke)
      = Some (samplePool ''np-2'' ''tf-vke-default'')"
    using sample_find by (simp add: sampleCluster_def)
  have s: "setError (rd ?w) ''node_pools'' v = None" for v
    by (simp add: sampleWorld_def)
  from T g have "(\<forall>v. find (\<lambda>v. tfVKEDefault = np_Tag v) (c_NodePools ?vke) = Some v
              \<longrightarrow> setError (rd ?w) ''node_pools'' (flattenNodePool v) = None)
          \<longrightarrow> attrs (rd (snd (resourceVultrKubernetesRead ?c ?w))) ''node_pools'' =
               (case find (\<lambda>v. tfVKEDefault = np_Tag v) (c_NodePools ?vke) of
                  None \<Rightarrow> attrs (rd ?w) ''node_pools''
                | Some v \<Rightarrow> Some (flattenNodePool v))"
    by blast
  then have "attrs (rd (snd (resourceVultrKubernetesRead ?c ?w))) ''node_pools''
      = Some (flattenNodePool (samplePool ''np-2'' ''tf-vke-default''))"
    using s f by simp
  then show ?thesis
    using sample_generate sample_update by (simp add: tfVKEDefault_def)
qed

end
